theory Spec2Isabelle
  imports Main "HOL-Library.AList" "HOL-Library.Char_ord" "HOL-Library.List_Lexorder"
begin

section \<open>The controller: registry, process supervision, visibility\<close>

text \<open>
  The embedding follows \<^verbatim>\<open>aicopilot_dp.py\<close>. The controller object is a record
  that every handler takes and returns. What the handlers do to the outside world (message
  boxes, hiding and showing the window, starting a child process) is appended, in program
  order, to the \<open>effects\<close> trace of that record. A Python exception that leaves a
  handler is the \<open>Inl\<close> branch of its result; every such raise of the source
  happens before the handler has changed anything, so the controller is then as it was.
\<close>

subsection \<open>Data\<close>

text \<open>
  A tool entry of \<^verbatim>\<open>studio_config.json\<close> is a JSON object. The loader does
  not check it, so every key may be absent: a field is \<open>None\<close> when the key is
  missing, and reading it with \<^verbatim>\<open>tool['key']\<close> raises \<open>KeyError\<close>.
\<close>

record tool_entry =
  tool_id :: "string option"
  display_name :: "string option"
  description :: "string option"
  category :: "string option"
  enabled :: "bool option"
  path :: "string option"
  entry_point :: "string option"

record studio_config =
  launcher_version :: "string option"
  tools :: "tool_entry list option"

datatype py_error =
    KeyError string
  | TypeError
  | JSONDecodeError

text \<open>
  A \<^verbatim>\<open>pathlib.Path\<close> is kept as the term that built it: \<open>Path s\<close> for
  \<^verbatim>\<open>Path(s)\<close> and \<open>Div p c\<close> for \<^verbatim>\<open>p / c\<close>. Which paths
  exist is a parameter of the launch (a predicate on paths), so nothing is assumed about
  how the platform normalises or prints a path; a path printed into a message is the
  fragment \<open>PathStr p\<close> of the message text.
\<close>

datatype pathlib = Path string | Div pathlib string

datatype fragment = Str string | PathStr pathlib

type_synonym message_text = "fragment list"

datatype icon = Warning | Critical | Question | Information

record qprocess =
  program :: pathlib
  arguments :: "pathlib list"
  working_directory :: pathlib

datatype effect =
    MessageBox icon string message_text
  | Hide
  | Show
  | ActivateWindow
  | ProcessStart nat

text \<open>
  \<open>processes\<close> lists the \<^verbatim>\<open>QProcess\<close> objects created so far, oldest
  first; a process is identified by its position in that list. \<open>active_processes\<close>
  is the dictionary of the source, as an association list in insertion order, changed
  only by \<open>AList.update\<close> (item assignment) and \<open>AList.delete\<close> (\<^verbatim>\<open>del\<close>).
\<close>

record controller =
  config :: studio_config
  active_processes :: "(string \<times> nat) list"
  processes :: "qprocess list"
  visible :: bool
  effects :: "effect list"

datatype StandardButton = Yes | No

datatype close_event = Accepted | Ignored

subsection \<open>Loading the configuration\<close>

text \<open>
  What \<^verbatim>\<open>open\<close> and \<^verbatim>\<open>json.load\<close> find at the configuration path:
  no file, a file that is not JSON, or a parsed document.
\<close>

datatype config_source = Absent | Unparsable | Document studio_config

datatype load_result =
    Loaded studio_config
  | FatalExit effect int
  | Uncaught py_error

definition load_config :: "config_source \<Rightarrow> load_result" where
  "load_config src =
     (case src of
        Document c \<Rightarrow> Loaded c
      | Absent \<Rightarrow>
          FatalExit (MessageBox Critical ''Config Error'' [Str ''studio_config.json not found!'']) 1
      | Unparsable \<Rightarrow> Uncaught JSONDecodeError)"

subsection \<open>Lookup\<close>

fun find_tool :: "tool_entry list \<Rightarrow> string \<Rightarrow> py_error + tool_entry option" where
  "find_tool [] i = Inr None"
| "find_tool (tool # rest) i =
     (case tool_id tool of
        None \<Rightarrow> Inl (KeyError ''id'')
      | Some j \<Rightarrow> if j = i then Inr (Some tool) else find_tool rest i)"

definition get_tool_by_id :: "studio_config \<Rightarrow> string \<Rightarrow> py_error + tool_entry option" where
  "get_tool_by_id c i = find_tool (case tools c of None \<Rightarrow> [] | Some ts \<Rightarrow> ts) i"

subsection \<open>Launching and the terminal handlers\<close>

definition venv_python_of :: "pathlib \<Rightarrow> pathlib" where
  "venv_python_of tool_path = Div (Div (Div tool_path ''.venv'') ''Scripts'') ''python.exe''"

definition not_registered_text :: "string \<Rightarrow> message_text" where
  "not_registered_text i = [Str (''Tool '' @ [CHR 0x27] @ i @ [CHR 0x27] @ '' not registered.'')]"

definition environment_missing_text :: "string \<Rightarrow> pathlib \<Rightarrow> message_text" where
  "environment_missing_text name venv_python =
     [Str (''Virtual environment not found for '' @ name @ ''.'' @ [CHR 0x0A] @ ''Expected: ''),
      PathStr venv_python]"

text \<open>
  \<open>say\<close> appends one effect to the trace. \<open>start_process\<close> is the tail of
  \<^verbatim>\<open>launch_tool\<close> after the environment check, in the order of the source:
  \<^verbatim>\<open>self.hide()\<close>, the new \<^verbatim>\<open>QProcess\<close> with its program, arguments
  and working directory, \<^verbatim>\<open>process.start()\<close>, and last the assignment
  \<^verbatim>\<open>self.active_processes[tool_id] = process\<close>. The source has no test of
  \<open>active_processes\<close> before it. The two signals connected before the start call
  \<open>on_tool_finished\<close> and \<open>on_tool_error\<close>; each handler is a step of its own, on
  the controller as it is when the signal arrives, and \<open>launch_tool\<close> is taken to run
  to its end without a handler in between.
\<close>

definition say :: "effect \<Rightarrow> controller \<Rightarrow> controller" where
  "say e s = s\<lparr>effects := effects s @ [e]\<rparr>"

definition start_process :: "string \<Rightarrow> qprocess \<Rightarrow> controller \<Rightarrow> controller" where
  "start_process i p s =
     (let hidden = (say Hide s)\<lparr>visible := False\<rparr>;
          created = hidden\<lparr>processes := processes hidden @ [p]\<rparr>;
          started = say (ProcessStart (length (processes hidden))) created
      in started\<lparr>active_processes :=
            AList.update i (length (processes hidden)) (active_processes started)\<rparr>)"

definition launch_tool :: "(pathlib \<Rightarrow> bool) \<Rightarrow> controller \<Rightarrow> string \<Rightarrow> py_error + controller" where
  "launch_tool exists s i =
     (case get_tool_by_id (config s) i of
        Inl e \<Rightarrow> Inl e
      | Inr None \<Rightarrow> Inr (say (MessageBox Warning ''Tool Not Found'' (not_registered_text i)) s)
      | Inr (Some tool_info) \<Rightarrow>
          (case path tool_info of
             None \<Rightarrow> Inl (KeyError ''path'')
           | Some p \<Rightarrow>
               (case entry_point tool_info of
                  None \<Rightarrow> Inl (KeyError ''entry_point'')
                | Some ep \<Rightarrow>
                    if \<not> exists (venv_python_of (Path p)) then
                      (case display_name tool_info of
                         None \<Rightarrow> Inl (KeyError ''display_name'')
                       | Some name \<Rightarrow>
                           Inr (say (MessageBox Warning ''Environment Missing''
                                  (environment_missing_text name (venv_python_of (Path p)))) s))
                    else
                      Inr (start_process i
                             \<lparr>program = venv_python_of (Path p),
                              arguments = [Div (Path p) ep],
                              working_directory = Path p\<rparr> s))))"

definition on_tool_finished :: "controller \<Rightarrow> string \<Rightarrow> controller" where
  "on_tool_finished s i =
     (let removed =
            (if i \<in> set (map fst (active_processes s))
             then s\<lparr>active_processes := AList.delete i (active_processes s)\<rparr>
             else s)
      in say ActivateWindow ((say Show removed)\<lparr>visible := True\<rparr>))"

definition on_tool_error :: "controller \<Rightarrow> string \<Rightarrow> py_error + controller" where
  "on_tool_error s i =
     (case get_tool_by_id (config s) i of
        Inl e \<Rightarrow> Inl e
      | Inr None \<Rightarrow> Inl TypeError
      | Inr (Some tool_info) \<Rightarrow>
          (case display_name tool_info of
             None \<Rightarrow> Inl (KeyError ''display_name'')
           | Some name \<Rightarrow>
               Inr (on_tool_finished
                      (say (MessageBox Critical ''Tool Error'' [Str (name @ '' encountered an error.'')]) s)
                      i)))"

subsection \<open>Closing the controller\<close>

text \<open>
  \<open>reply\<close> is the button the user presses in the question box; it is read only when
  the box is shown.
\<close>

definition closeEvent :: "controller \<Rightarrow> StandardButton \<Rightarrow> controller \<times> close_event" where
  "closeEvent s reply =
     (if active_processes s \<noteq> [] then
        (let asked = say (MessageBox Question ''Tools Running''
                            [Str ''Tools are still running. Close anyway?'']) s
         in if reply = No then (asked, Ignored) else (asked, Accepted))
      else (s, Accepted))"

subsection \<open>Reachable controllers\<close>

text \<open>
  The constructor leaves an empty handle table and \<^verbatim>\<open>main\<close> shows the window;
  from then on the controller changes through the four handlers only.
\<close>

inductive reachable :: "controller \<Rightarrow> bool" where
  constructed:
    "reachable \<lparr>config = c, active_processes = [], processes = [], visible = True, effects = []\<rparr>"
| launched: "reachable s \<Longrightarrow> launch_tool exists s i = Inr s' \<Longrightarrow> reachable s'"
| finished: "reachable s \<Longrightarrow> reachable (on_tool_finished s i)"
| failed: "reachable s \<Longrightarrow> on_tool_error s i = Inr s' \<Longrightarrow> reachable s'"
| close_asked: "reachable s \<Longrightarrow> reachable (fst (closeEvent s reply))"

section \<open>The status channel readers\<close>



subsection \<open>FakeTool\<close>




subsection \<open>Vision Tester\<close>






section \<open>Example values\<close>

text \<open>
  A configuration with three entries, two of them sharing the id \<open>a\<close> and one without
  the keys a launch reads; controllers before and after launches of \<open>a\<close>; file systems;
  status records and reader windows. The closed theorems below are evaluated on them.
\<close>

definition demo_tool :: tool_entry where
  "demo_tool = \<lparr>tool_id = Some ''a'', display_name = Some ''Tool A'', description = None,
     category = None, enabled = None, path = Some ''C:/tools/a'',
     entry_point = Some ''main_gui.py''\<rparr>"

definition demo_twin :: tool_entry where
  "demo_twin = \<lparr>tool_id = Some ''a'', display_name = Some ''Tool A again'', description = None,
     category = None, enabled = None, path = Some ''C:/tools/twin'',
     entry_point = Some ''main_gui.py''\<rparr>"

definition demo_other :: tool_entry where
  "demo_other = \<lparr>tool_id = Some ''b'', display_name = None, description = None,
     category = None, enabled = Some False, path = None, entry_point = None\<rparr>"

definition demo_config :: studio_config where
  "demo_config =
     \<lparr>launcher_version = Some ''1.0.0'', tools = Some [demo_other, demo_tool, demo_twin]\<rparr>"

definition demo_process :: qprocess where
  "demo_process = \<lparr>program = venv_python_of (Path ''C:/tools/a''),
     arguments = [Div (Path ''C:/tools/a'') ''main_gui.py''],
     working_directory = Path ''C:/tools/a''\<rparr>"

definition demo_idle :: controller where
  "demo_idle = \<lparr>config = demo_config, active_processes = [], processes = [],
     visible = True, effects = []\<rparr>"

definition demo_running :: controller where
  "demo_running = \<lparr>config = demo_config, active_processes = [(''a'', 0)],
     processes = [demo_process], visible = False, effects = [Hide, ProcessStart 0]\<rparr>"

definition demo_relaunched :: controller where
  "demo_relaunched = \<lparr>config = demo_config, active_processes = [(''a'', 1)],
     processes = [demo_process, demo_process], visible = False,
     effects = [Hide, ProcessStart 0, Hide, ProcessStart 1]\<rparr>"

definition every_path :: "pathlib \<Rightarrow> bool" where
  "every_path p = True"

definition only_runtime :: "pathlib \<Rightarrow> bool" where
  "only_runtime p = (p = venv_python_of (Path ''C:/tools/a''))"

definition no_path :: "pathlib \<Rightarrow> bool" where
  "no_path p = False"








lemmas demo_defs = demo_tool_def demo_twin_def demo_other_def demo_config_def demo_process_def
  demo_idle_def demo_running_def demo_relaunched_def every_path_def only_runtime_def no_path_def


section \<open>Basic facts about the handlers\<close>

lemma say_simps:
  "config (say e s) = config s"
  "active_processes (say e s) = active_processes s"
  "processes (say e s) = processes s"
  "visible (say e s) = visible s"
  "effects (say e s) = effects s @ [e]"
  by (simp_all add: say_def)

lemma start_process_simps:
  "config (start_process i p s) = config s"
  "active_processes (start_process i p s) =
     AList.update i (length (processes s)) (active_processes s)"
  "processes (start_process i p s) = processes s @ [p]"
  "visible (start_process i p s) = False"
  "effects (start_process i p s) = effects s @ [Hide, ProcessStart (length (processes s))]"
  by (simp_all add: start_process_def say_def Let_def)

lemma on_tool_finished_simps:
  "config (on_tool_finished s i) = config s"
  "active_processes (on_tool_finished s i) = AList.delete i (active_processes s)"
  "processes (on_tool_finished s i) = processes s"
  "visible (on_tool_finished s i) = True"
  "effects (on_tool_finished s i) = effects s @ [Show, ActivateWindow]"
  by (simp_all add: on_tool_finished_def say_def Let_def)

lemma launch_tool_started:
  assumes "get_tool_by_id (config s) i = Inr (Some t)"
    and "path t = Some p" and "entry_point t = Some ep"
    and "exists (venv_python_of (Path p))"
  shows "launch_tool exists s i =
           Inr (start_process i
                  \<lparr>program = venv_python_of (Path p), arguments = [Div (Path p) ep],
                   working_directory = Path p\<rparr> s)"
  using assms by (simp add: launch_tool_def)



lemma launch_tool_config: "launch_tool exists s i = Inr s' \<Longrightarrow> config s' = config s"
  by (auto simp: launch_tool_def say_simps start_process_simps
           split: sum.splits option.splits if_splits)

lemma launch_tool_never_shows:
  "launch_tool exists s i = Inr s' \<Longrightarrow> visible s' \<Longrightarrow> visible s"
  by (auto simp: launch_tool_def say_simps start_process_simps
           split: sum.splits option.splits if_splits)


subsection \<open>The handle table never holds an id twice\<close>


lemma update_present_keys:
  "k \<in> fst ` set al \<Longrightarrow> map fst (AList.update k v al) = map fst al"
  by (simp add: update_keys)

lemma launch_tool_distinct:
  "distinct (map fst (active_processes s)) \<Longrightarrow> launch_tool exists s i = Inr s' \<Longrightarrow>
   distinct (map fst (active_processes s'))"
  by (auto simp: launch_tool_def say_simps start_process_simps distinct_update
           split: sum.splits option.splits if_splits)

lemma on_tool_finished_distinct:
  "distinct (map fst (active_processes s)) \<Longrightarrow>
   distinct (map fst (active_processes (on_tool_finished s i)))"
  by (simp add: on_tool_finished_simps distinct_delete)

lemma on_tool_error_distinct:
  "distinct (map fst (active_processes s)) \<Longrightarrow> on_tool_error s i = Inr s' \<Longrightarrow>
   distinct (map fst (active_processes s'))"
  by (auto simp: on_tool_error_def on_tool_finished_simps say_simps distinct_delete
           split: sum.splits option.splits)

lemma closeEvent_distinct:
  "distinct (map fst (active_processes s)) \<Longrightarrow>
   distinct (map fst (active_processes (fst (closeEvent s reply))))"
  by (simp add: closeEvent_def say_simps Let_def)

lemma reachable_distinct: "reachable s \<Longrightarrow> distinct (map fst (active_processes s))"
proof (induction rule: reachable.induct)
  case (constructed c)
  show ?case by simp
next
  case (launched s exists i s')
  then show ?case by (blast intro: launch_tool_distinct)
next
  case (finished s i)
  then show ?case by (simp add: on_tool_finished_distinct)
next
  case (failed s i s')
  then show ?case by (blast intro: on_tool_error_distinct)
next
  case (close_asked s reply)
  then show ?case by (simp add: closeEvent_distinct)
qed

section \<open>Registry\<close>

lemma find_tool_first:
  "\<forall>u \<in> set pre. \<exists>j. tool_id u = Some j \<and> j \<noteq> i \<Longrightarrow> tool_id t = Some i \<Longrightarrow>
   find_tool (pre @ t # post) i = Inr (Some t)"
  by (induction pre) auto

text \<open>
  C10. Loading keeps a document whose entries share an id, and lookup by that id returns
  the first entry carrying it, in configuration order: when the entries before \<open>t\<close>
  carry other ids and \<open>t\<close> carries \<open>i\<close>, the lookup of \<open>i\<close> returns \<open>t\<close>, whatever
  follows \<open>t\<close> (further entries with the id \<open>i\<close> included).
\<close>

theorem get_tool_by_id_first_match:
  assumes "tools c = Some (pre @ t # post)"
    and "\<forall>u \<in> set pre. \<exists>j. tool_id u = Some j \<and> j \<noteq> i"
    and "tool_id t = Some i"
  shows "load_config (Document c) = Loaded c \<and> get_tool_by_id c i = Inr (Some t)"
  using assms by (simp add: load_config_def get_tool_by_id_def find_tool_first)

text \<open>
  The example configuration: \<open>demo_tool\<close> and \<open>demo_twin\<close> both carry the id \<open>a\<close>,
  \<open>demo_tool\<close> comes first, and the lookup of \<open>a\<close> returns it.
\<close>

theorem get_tool_by_id_first_match_witness:
  "tools demo_config = Some ([demo_other] @ demo_tool # [demo_twin])
   \<and> tool_id demo_other = Some ''b'' \<and> ''b'' \<noteq> ''a''
   \<and> tool_id demo_tool = Some ''a'' \<and> tool_id demo_twin = Some ''a''
   \<and> load_config (Document demo_config) = Loaded demo_config
   \<and> get_tool_by_id demo_config ''a'' = Inr (Some demo_tool)"
proof -
  have a: "tools demo_config = Some ([demo_other] @ demo_tool # [demo_twin])"
    and b: "\<forall>u \<in> set [demo_other]. \<exists>j. tool_id u = Some j \<and> j \<noteq> ''a''"
    and c: "tool_id demo_tool = Some ''a''"
    and d: "tool_id demo_other = Some ''b''" "''b'' \<noteq> ''a''" "tool_id demo_twin = Some ''a''"
    by (simp_all add: demo_defs)
  from get_tool_by_id_first_match [OF a b c] a c d show ?thesis by simp
qed

text \<open>
  C6, as stated, fails: a document in which two entries share an id and a third lacks
  the display name, the path and the entry point is loaded as it is, with no error.
\<close>

theorem load_config_accepts_malformed_counterexample:
  "tool_id demo_tool = tool_id demo_twin
   \<and> display_name demo_other = None \<and> path demo_other = None \<and> entry_point demo_other = None
   \<and> tools demo_config = Some [demo_other, demo_tool, demo_twin]
   \<and> load_config (Document demo_config) = Loaded demo_config"
  by (simp add: load_config_def demo_defs)

text \<open>
  C6, amended. Loading ends in the fatal error box and exit status 1 exactly when the
  configuration file is absent; every document that parses is returned unchanged,
  whatever fields its entries lack and whatever ids they share.
\<close>

theorem load_config_fatal_only_when_absent:
  "load_config Absent =
     FatalExit (MessageBox Critical ''Config Error'' [Str ''studio_config.json not found!'']) 1
   \<and> load_config (Document c) = Loaded c
   \<and> ((\<exists>e n. load_config src = FatalExit e n) \<longleftrightarrow> src = Absent)"
  by (cases src) (simp_all add: load_config_def)

theorem load_config_fatal_only_when_absent_witness:
  "load_config (Document demo_config) = Loaded demo_config
   \<and> (\<exists>e n. load_config Absent = FatalExit e n)
   \<and> \<not> (\<exists>e n. load_config (Document demo_config) = FatalExit e n)"
  using load_config_fatal_only_when_absent [of demo_config Absent]
        load_config_fatal_only_when_absent [of demo_config "Document demo_config"]
  by simp

section \<open>Launching\<close>




text \<open>
  C9. A launch whose environment check succeeds hides the window and then starts the
  process: the two effects it adds are \<open>Hide\<close> and, after it, the start, so the window
  is hidden when the process is started, whatever the start then reports. From the
  state the launch leaves, no further launch and no close request shows the window
  again; \<open>on_tool_finished\<close> shows it, and so does \<open>on_tool_error\<close> whenever it
  returns.
\<close>

theorem launch_tool_hides_before_start:
  assumes reg: "get_tool_by_id (config s) i = Inr (Some t)"
    and fields: "path t = Some p" "entry_point t = Some ep"
    and env: "exists (venv_python_of (Path p))"
  shows "\<exists>s'. launch_tool exists s i = Inr s'
           \<and> effects s' = effects s @ [Hide, ProcessStart (length (processes s))]
           \<and> \<not> visible s'
           \<and> (\<forall>exists' j s''. launch_tool exists' s' j = Inr s'' \<longrightarrow> \<not> visible s'')
           \<and> \<not> visible (fst (closeEvent s' reply))
           \<and> visible (on_tool_finished s' j)
           \<and> (\<forall>s''. on_tool_error s' j = Inr s'' \<longrightarrow> visible s'')"
proof -
  let ?s' = "start_process i \<lparr>program = venv_python_of (Path p), arguments = [Div (Path p) ep],
                              working_directory = Path p\<rparr> s"
  have launched: "launch_tool exists s i = Inr ?s'"
    using reg fields env by (rule launch_tool_started)
  have hidden: "\<not> visible ?s'" by (simp add: start_process_simps)
  have later: "\<forall>exists' j s''. launch_tool exists' ?s' j = Inr s'' \<longrightarrow> \<not> visible s''"
    using hidden launch_tool_never_shows by blast
  have closing: "\<not> visible (fst (closeEvent ?s' reply))"
    using hidden by (simp add: closeEvent_def say_simps Let_def)
  have err: "\<forall>s''. on_tool_error ?s' j = Inr s'' \<longrightarrow> visible s''"
    by (auto simp: on_tool_error_def on_tool_finished_simps split: sum.splits option.splits)
  show ?thesis
    using launched hidden later closing err
    by (simp add: start_process_simps on_tool_finished_simps)
qed

theorem launch_tool_hides_before_start_witness:
  "get_tool_by_id (config demo_idle) ''a'' = Inr (Some demo_tool)
   \<and> every_path (venv_python_of (Path ''C:/tools/a''))
   \<and> visible demo_idle
   \<and> (\<exists>s'. launch_tool every_path demo_idle ''a'' = Inr s'
         \<and> effects s' = [Hide, ProcessStart 0] \<and> \<not> visible s'
         \<and> \<not> visible (fst (closeEvent s' No))
         \<and> visible (on_tool_finished s' ''a''))"
proof -
  have r: "get_tool_by_id (config demo_idle) ''a'' = Inr (Some demo_tool)"
    and p: "path demo_tool = Some ''C:/tools/a''"
    and e: "entry_point demo_tool = Some ''main_gui.py''"
    and x: "every_path (venv_python_of (Path ''C:/tools/a''))"
    and v: "visible demo_idle"
    by (simp_all add: get_tool_by_id_def demo_defs)
  have "\<exists>s'. launch_tool every_path demo_idle ''a'' = Inr s'
         \<and> effects s' = [Hide, ProcessStart 0] \<and> \<not> visible s'
         \<and> \<not> visible (fst (closeEvent s' No))
         \<and> visible (on_tool_finished s' ''a'')"
  proof -
    from launch_tool_hides_before_start
           [OF r p e, where exists = every_path and reply = No and j = "''a''", OF x]
    obtain s' where "launch_tool every_path demo_idle ''a'' = Inr s'"
      and "effects s' = effects demo_idle @ [Hide, ProcessStart (length (processes demo_idle))]"
      and "\<not> visible s'" and "\<not> visible (fst (closeEvent s' No))"
      and "visible (on_tool_finished s' ''a'')"
      by (elim exE conjE)
    then show ?thesis by (intro exI [of _ s']) (simp add: demo_idle_def)
  qed
  then show ?thesis using r x v by simp
qed

text \<open>
  C2, as stated, fails: the tool \<open>a\<close> is launched, has the live handle 0, and is
  launched again. The second launch is not refused and shows no warning; it starts a
  second process, and the table now holds handle 1 for \<open>a\<close>.
\<close>

theorem second_launch_counterexample:
  "launch_tool every_path demo_idle ''a'' = Inr demo_running
   \<and> map_of (active_processes demo_running) ''a'' = Some 0
   \<and> launch_tool every_path demo_running ''a'' = Inr demo_relaunched
   \<and> map_of (active_processes demo_relaunched) ''a'' = Some 1
   \<and> active_processes demo_relaunched \<noteq> active_processes demo_running
   \<and> effects demo_relaunched = effects demo_running @ [Hide, ProcessStart 1]"
  by (simp add: launch_tool_def get_tool_by_id_def start_process_def say_def Let_def demo_defs)

text \<open>
  C2, amended. A launch of an id that already has a live handle, with its environment
  in place, is carried out like any other: a new process is started, no warning is
  shown, and the handle stored for that id is replaced by the new process. The table
  keeps the same ids, each still once, and every other id keeps its handle.
\<close>

theorem relaunch_replaces_handle:
  assumes dist: "distinct (map fst (active_processes s))"
    and live: "map_of (active_processes s) i = Some h"
    and reg: "get_tool_by_id (config s) i = Inr (Some t)"
    and fields: "path t = Some p" "entry_point t = Some ep"
    and env: "exists (venv_python_of (Path p))"
  shows "\<exists>s'. launch_tool exists s i = Inr s'
           \<and> map_of (active_processes s') =
               (map_of (active_processes s))(i \<mapsto> length (processes s))
           \<and> map fst (active_processes s') = map fst (active_processes s)
           \<and> distinct (map fst (active_processes s'))
           \<and> processes s' = processes s @
                [\<lparr>program = venv_python_of (Path p), arguments = [Div (Path p) ep],
                  working_directory = Path p\<rparr>]
           \<and> effects s' = effects s @ [Hide, ProcessStart (length (processes s))]"
proof -
  let ?s' = "start_process i \<lparr>program = venv_python_of (Path p), arguments = [Div (Path p) ep],
                              working_directory = Path p\<rparr> s"
  have launched: "launch_tool exists s i = Inr ?s'"
    using reg fields env by (rule launch_tool_started)
  have "i \<in> fst ` set (active_processes s)"
    using live by (metis domI dom_map_of_conv_image_fst)
  then have keys: "map fst (active_processes ?s') = map fst (active_processes s)"
    by (simp add: start_process_simps update_present_keys)
  have "map_of (active_processes ?s') =
          (map_of (active_processes s))(i \<mapsto> length (processes s))"
    by (simp add: start_process_simps update_conv')
  with launched keys dist show ?thesis
    by (simp add: start_process_simps)
qed

theorem relaunch_replaces_handle_witness:
  "distinct (map fst (active_processes demo_running))
   \<and> map_of (active_processes demo_running) ''a'' = Some 0
   \<and> get_tool_by_id (config demo_running) ''a'' = Inr (Some demo_tool)
   \<and> every_path (venv_python_of (Path ''C:/tools/a''))
   \<and> (\<exists>s'. launch_tool every_path demo_running ''a'' = Inr s'
         \<and> map_of (active_processes s') ''a'' = Some 1
         \<and> map fst (active_processes s') = [''a''])"
proof -
  have d: "distinct (map fst (active_processes demo_running))"
    and l: "map_of (active_processes demo_running) ''a'' = Some 0"
    and r: "get_tool_by_id (config demo_running) ''a'' = Inr (Some demo_tool)"
    and p: "path demo_tool = Some ''C:/tools/a''"
    and e: "entry_point demo_tool = Some ''main_gui.py''"
    and x: "every_path (venv_python_of (Path ''C:/tools/a''))"
    by (simp_all add: get_tool_by_id_def demo_defs)
  from relaunch_replaces_handle [OF d l r p e, where exists = every_path, OF x]
  obtain s' where "launch_tool every_path demo_running ''a'' = Inr s'"
    and "map_of (active_processes s') =
           (map_of (active_processes demo_running))(''a'' \<mapsto> length (processes demo_running))"
    and "map fst (active_processes s') = map fst (active_processes demo_running)"
    by (elim exE conjE)
  then have "launch_tool every_path demo_running ''a'' = Inr s'
         \<and> map_of (active_processes s') ''a'' = Some 1
         \<and> map fst (active_processes s') = [''a'']"
    by (simp add: demo_defs)
  then have ex: "\<exists>s'. launch_tool every_path demo_running ''a'' = Inr s'
         \<and> map_of (active_processes s') ''a'' = Some 1
         \<and> map fst (active_processes s') = [''a'']" ..
  show ?thesis by (intro conjI d l r x ex)
qed

section \<open>Terminal events\<close>





section \<open>Closing\<close>

text \<open>
  C8. A close request while the handle table is not empty first asks the user, with the
  question box \<^verbatim>\<open>Tools Running\<close>. The close is ignored exactly when the answer is
  No and accepted exactly when it is Yes; either way the handle table and the window's
  visibility are as before, so after a No the controller runs on with its handles.
\<close>

theorem closeEvent_asks_first:
  assumes "active_processes s \<noteq> []"
  shows "fst (closeEvent s reply) =
           say (MessageBox Question ''Tools Running''
                  [Str ''Tools are still running. Close anyway?'']) s
         \<and> (snd (closeEvent s reply) = Ignored \<longleftrightarrow> reply = No)
         \<and> (snd (closeEvent s reply) = Accepted \<longleftrightarrow> reply = Yes)
         \<and> active_processes (fst (closeEvent s reply)) = active_processes s
         \<and> visible (fst (closeEvent s reply)) = visible s"
  using assms by (cases reply) (simp_all add: closeEvent_def say_simps Let_def)

theorem closeEvent_asks_first_witness:
  "active_processes demo_running \<noteq> []
   \<and> closeEvent demo_running No =
       (say (MessageBox Question ''Tools Running'' [Str ''Tools are still running. Close anyway?''])
          demo_running, Ignored)
   \<and> snd (closeEvent demo_running Yes) = Accepted"
proof -
  have a: "active_processes demo_running \<noteq> []" by (simp add: demo_running_def)
  from closeEvent_asks_first [OF a, of No] closeEvent_asks_first [OF a, of Yes] a
  show ?thesis by (simp add: prod_eq_iff)
qed

section \<open>Status channel readers\<close>















end
